theory Spec2Isabelle
  imports Complex_Main "HOL-Library.AList" "HOL-Library.Sublist"
begin

section \<open>JavaScript values, objects and completions\<close>

text \<open>
  The three scheduled scripts of the repository are SuiteScript 2.1 modules. Each is
  embedded as a family of HOL functions over an explicit run state. A JavaScript call
  either returns or throws; both outcomes carry the state reached.
\<close>

datatype js_error = JSError (message: string)

datatype ('a, 's) completion = Normal 'a 's | Throw js_error 's

text \<open>A number is an integer or \<open>NaN\<close>; an email author is a number or a string.\<close>

datatype js_number = Num int | NaN

datatype js_value = JSNumber js_number | JSString string

text \<open>
  Field values read from the host are strings, the empty string standing for an unset
  field. \<open>truthy\<close> is the test that \<open>if (x)\<close>, \<open>!x\<close> and \<open>x || y\<close> apply to
  a string.
\<close>

definition truthy :: "string \<Rightarrow> bool" where
  "truthy s = (s \<noteq> [])"

definition LF :: char where
  "LF = CHR 0x0A"

definition DQ :: char where
  "DQ = CHR 0x22"

subsection \<open>Numbers as text\<close>

definition digit_chars :: string where
  "digit_chars = ''0123456789''"

text \<open>The decimal digits of a natural number, least significant first.\<close>

fun digits_rev :: "nat \<Rightarrow> string" where
  "digits_rev k =
     (digit_chars ! (k mod 10)) # (if k div 10 = 0 then [] else digits_rev (k div 10))"

declare digits_rev.simps [simp del]

definition string_of_nat :: "nat \<Rightarrow> string" where
  "string_of_nat k = rev (digits_rev k)"

definition string_of_int :: "int \<Rightarrow> string" where
  "string_of_int i =
     (if 0 \<le> i then string_of_nat (nat i) else CHR ''-'' # string_of_nat (nat (- i)))"

definition string_of_number :: "js_number \<Rightarrow> string" where
  "string_of_number x = (case x of NaN \<Rightarrow> ''NaN'' | Num i \<Rightarrow> string_of_int i)"

fun join :: "string \<Rightarrow> string list \<Rightarrow> string" where
  "join sep [] = []"
| "join sep [x] = x"
| "join sep (x # y # ys) = x @ sep @ join sep (y # ys)"

definition is_digit :: "char \<Rightarrow> bool" where
  "is_digit c = (c \<in> set digit_chars)"

definition digit_value :: "char \<Rightarrow> nat" where
  "digit_value c = of_char c - 48"

definition nat_of_digits :: "string \<Rightarrow> nat" where
  "nat_of_digits ds = foldl (\<lambda>a c. 10 * a + digit_value c) 0 ds"

subsection \<open>Ordinary objects used as dictionaries\<close>

text \<open>
  An object literal \<open>{}\<close> is an association list of its own properties in insertion
  order. A read \<open>obj[k]\<close> of a key that is not an own property falls through to
  \<open>Object.prototype\<close>, whose properties are all truthy (functions, and the
  prototype object itself under \<open>__proto__\<close>).
\<close>

type_synonym 'v js_object = "(string \<times> 'v) list"

definition Object_prototype :: "string list" where
  "Object_prototype =
     [''constructor'', ''hasOwnProperty'', ''isPrototypeOf'', ''propertyIsEnumerable'',
      ''toLocaleString'', ''toString'', ''valueOf'', ''__proto__'',
      ''__defineGetter__'', ''__defineSetter__'', ''__lookupGetter__'', ''__lookupSetter__'']"

datatype 'v property = Own 'v | Inherited | Undefined

definition get_property :: "'v js_object \<Rightarrow> string \<Rightarrow> 'v property" where
  "get_property obj k =
     (case map_of obj k of
        Some v \<Rightarrow> Own v
      | None \<Rightarrow> if k \<in> set Object_prototype then Inherited else Undefined)"

text \<open>
  \<open>obj[k] = v\<close> on a key that is not inherited: the own property is overwritten in
  place or appended, which is \<open>AList.update\<close>.
\<close>

definition put_property :: "'v js_object \<Rightarrow> string \<Rightarrow> 'v \<Rightarrow> 'v js_object" where
  "put_property obj k v = AList.update k v obj"

text \<open>
  \<open>for (k in obj)\<close> and \<open>Object.keys(obj)\<close> enumerate the own properties: first
  the keys that are array indices (canonical decimal numerals below \<open>2^32 - 1\<close>) in
  ascending numeric order, then the other keys in insertion order.
\<close>

definition is_array_index :: "string \<Rightarrow> bool" where
  "is_array_index k =
     (k \<noteq> [] \<and> list_all is_digit k \<and> (if hd k = CHR ''0'' then k = ''0'' else True)
      \<and> nat_of_digits k < 4294967295)"

definition for_in :: "'v js_object \<Rightarrow> (string \<times> 'v) list" where
  "for_in obj =
     sort_key (\<lambda>p. nat_of_digits (fst p)) (filter (\<lambda>p. is_array_index (fst p)) obj)
     @ filter (\<lambda>p. \<not> is_array_index (fst p)) obj"

definition Object_keys :: "'v js_object \<Rightarrow> string list" where
  "Object_keys obj = map fst (for_in obj)"

subsection \<open>parseInt\<close>

text \<open>
  \<open>parseInt(s)\<close> with no radix: leading white space is skipped, a sign is read, a
  \<open>0x\<close> prefix selects radix 16, and the longest prefix of digits of the radix is
  converted; with no digit the result is \<open>NaN\<close>. The result is exact below \<open>2^53\<close>,
  which covers every internal identifier.
\<close>

definition is_space :: "char \<Rightarrow> bool" where
  "is_space c = (c \<in> set [CHR 0x09, CHR 0x0A, CHR 0x0B, CHR 0x0C, CHR 0x0D, CHR 0x20])"

definition hex_chars :: string where
  "hex_chars = ''0123456789abcdefABCDEF''"

definition hex_value :: "char \<Rightarrow> nat" where
  "hex_value c =
     (if c \<in> set digit_chars then of_char c - 48
      else if c \<in> set ''abcdef'' then of_char c - 87
      else of_char c - 55)"

definition parse_digits :: "string \<Rightarrow> js_number" where
  "parse_digits s =
     (if take 2 s = ''0x'' \<or> take 2 s = ''0X'' then
        (let ds = takeWhile (\<lambda>c. c \<in> set hex_chars) (drop 2 s)
         in if ds = [] then NaN
            else Num (int (foldl (\<lambda>a c. 16 * a + hex_value c) 0 ds)))
      else
        (let ds = takeWhile is_digit s
         in if ds = [] then NaN else Num (int (nat_of_digits ds))))"

definition parseInt :: "string \<Rightarrow> js_number" where
  "parseInt s =
     (let t = dropWhile is_space s in
      case t of
        [] \<Rightarrow> NaN
      | c # cs \<Rightarrow>
          if c = CHR ''-'' then
            (case parse_digits cs of NaN \<Rightarrow> NaN | Num i \<Rightarrow> Num (- i))
          else if c = CHR ''+'' then parse_digits cs
          else parse_digits t)"

section \<open>The host platform\<close>

text \<open>
  The scripts run inside the ERP's scheduled-script runtime and reach it through the
  modules \<open>N/search\<close>, \<open>N/record\<close>, \<open>N/file\<close>, \<open>N/email\<close>, \<open>N/runtime\<close> and
  \<open>N/log\<close>. The host is a parameter of the embedding: every call takes the host's
  world, may change it, and returns or throws. Nothing is assumed about what the host
  answers.
\<close>

datatype log_level = AUDIT | ERROR | DEBUG

type_synonym log_entry = "log_level \<times> string \<times> string"

text \<open>A search result row, by the columns the scripts read with \<open>getValue\<close>.\<close>

record search_result =
  entity :: string
  tranid :: string
  amount_col :: string
  duedate :: string

datatype filter_term = Condition string string string | Conj

record search_options =
  search_type :: string
  filters :: "filter_term list"
  columns :: "string list"

record file_options =
  file_name :: string
  fileType :: string
  contents :: string
  folder :: "int option"

text \<open>A file object of the host is an opaque handle.\<close>

type_synonym file_handle = nat

record email_options =
  author :: js_value
  recipients :: string
  subject :: string
  body :: string
  attachments :: "file_handle list"

text \<open>
  The customer fields the scripts read. \<open>search.lookupFields\<close> returns the sales
  representative as a list of \<open>(value, text)\<close> options; \<open>record.load\<close> followed by
  \<open>getValue\<close> returns the identifier itself.
\<close>

record 'r customer =
  companyname :: string
  firstname :: string
  email :: string
  salesrep :: 'r

datatype host_call =
    SearchRun search_options
  | LookupFields string string
  | RecordLoad string string
  | FileCreate file_options
  | FileSave file_handle
  | FileLoad int
  | EmailSend email_options

text \<open>
  \<open>search_each\<close> stands for \<open>search.create(...).run().each(callback)\<close>: the rows the
  host hands to the callback and, possibly, an error it throws after them (with no row
  when creating or running the search fails). \<open>Date_parse\<close> is \<open>new Date(string)\<close>
  read as a time value in milliseconds (\<open>NaN\<close> for an invalid date); \<open>Date_now\<close> is
  the clock behind \<open>new Date()\<close> and \<open>Date.now()\<close>.
\<close>

record 'w host =
  search_each :: "search_options \<Rightarrow> 'w \<Rightarrow> (search_result list \<times> js_error option) \<times> 'w"
  Date_parse :: "string \<Rightarrow> js_number"
  Date_now :: "'w \<Rightarrow> int \<times> 'w"
  lookupFields_customer :: "string \<Rightarrow> 'w \<Rightarrow> ((string \<times> string) list customer, 'w) completion"
  lookupFields_employee :: "string \<Rightarrow> 'w \<Rightarrow> (string, 'w) completion"
  record_load_customer :: "string \<Rightarrow> 'w \<Rightarrow> (string customer, 'w) completion"
  record_load_employee :: "string \<Rightarrow> 'w \<Rightarrow> (string, 'w) completion"
  file_create :: "file_options \<Rightarrow> 'w \<Rightarrow> (file_handle, 'w) completion"
  file_save :: "file_handle \<Rightarrow> 'w \<Rightarrow> (int, 'w) completion"
  file_load :: "int \<Rightarrow> 'w \<Rightarrow> (file_handle, 'w) completion"
  email_send :: "email_options \<Rightarrow> 'w \<Rightarrow> (unit, 'w) completion"
  currentUser_id :: "'w \<Rightarrow> int"

text \<open>
  The run state: the host's world, the log written so far and the host calls made so
  far, both in the order of execution.
\<close>

record 'w run_state =
  world :: 'w
  logs :: "log_entry list"
  calls :: "host_call list"

definition log_write :: "log_level \<Rightarrow> string \<Rightarrow> string \<Rightarrow> 'w run_state \<Rightarrow> 'w run_state" where
  "log_write lvl title details s = s\<lparr>logs := logs s @ [(lvl, title, details)]\<rparr>"

definition invoke ::
  "host_call \<Rightarrow> ('w \<Rightarrow> ('a, 'w) completion) \<Rightarrow> 'w run_state \<Rightarrow> ('a, 'w run_state) completion" where
  "invoke c f s =
     (case f (world s) of
        Normal x w \<Rightarrow> Normal x (s\<lparr>world := w, calls := calls s @ [c]\<rparr>)
      | Throw e w \<Rightarrow> Throw e (s\<lparr>world := w, calls := calls s @ [c]\<rparr>))"

definition read_clock :: "'w host \<Rightarrow> 'w run_state \<Rightarrow> int \<times> 'w run_state" where
  "read_clock h s = (case Date_now h (world s) of (t, w) \<Rightarrow> (t, s\<lparr>world := w\<rparr>))"

text \<open>
  \<open>ResultSet.each\<close>: the callback is run on each row in turn for as long as it
  returns \<open>true\<close>; an exception of the callback ends the iteration.
\<close>

fun each :: "('r \<Rightarrow> 's \<Rightarrow> (bool, 's) completion) \<Rightarrow> 'r list \<Rightarrow> 's \<Rightarrow> (unit, 's) completion" where
  "each f [] s = Normal () s"
| "each f (r # rs) s =
     (case f r s of
        Normal continue s' \<Rightarrow> if continue then each f rs s' else Normal () s'
      | Throw e s' \<Rightarrow> Throw e s')"

text \<open>
  The loop shared by the three notification stages,
  \<^verbatim>\<open>for (const k in obj) { try { body } catch (e) { handler } }\<close>, over the enumerated
  properties: an exception of the body is handed to the handler and the loop goes on
  with the next property. A \<open>continue\<close> in the body is a normal end of the body.
\<close>

fun for_in_try ::
  "(string \<times> 'v \<Rightarrow> 's \<Rightarrow> (unit, 's) completion) \<Rightarrow> (string \<Rightarrow> js_error \<Rightarrow> 's \<Rightarrow> 's)
     \<Rightarrow> (string \<times> 'v) list \<Rightarrow> 's \<Rightarrow> (unit, 's) completion" where
  "for_in_try attempt handler [] s = Normal () s"
| "for_in_try attempt handler (p # ps) s =
     (case attempt p s of
        Normal u s1 \<Rightarrow> for_in_try attempt handler ps s1
      | Throw e s1 \<Rightarrow> for_in_try attempt handler ps (handler (fst p) e s1))"

section \<open>The invoice summaries\<close>

record invoice =
  invoiceNumber :: string
  amount :: string
  daysOverdue :: js_number

text \<open>
  \<open>Math.floor((new Date() - dueDate) / (1000 * 60 * 60 * 24))\<close>, the same expression
  in the three scripts. Time values are integers; the quotient is taken in the reals
  and rounded down. An invalid due date makes the result \<open>NaN\<close>.
\<close>

definition compute_daysOverdue :: "int \<Rightarrow> js_number \<Rightarrow> js_number" where
  "compute_daysOverdue now dueDate =
     (case dueDate of
        NaN \<Rightarrow> NaN
      | Num d \<Rightarrow> Num \<lfloor>real_of_int (now - d) / real_of_int (1000 * 60 * 60 * 24)\<rfloor>)"

text \<open>
  \<open>customerInvoices[customerId].push(...)\<close> when the customer identifier names a
  property of \<open>Object.prototype\<close>: the value read is not an array.
\<close>

definition TypeError_push :: js_error where
  "TypeError_push = JSError ''customerInvoices[customerId].push is not a function''"

section \<open>The primary script\<close>

text \<open>
  \<^verbatim>\<open>_jj_sc_monthly_overdue_email.js\<close>, first module: \<open>execute\<close>,
  \<open>searchOverdueInvoices\<close>, \<open>processCustomerNotifications\<close>, \<open>sendCustomerEmail\<close>,
  \<open>getSenderId\<close> and \<open>createCSVFile\<close>.
\<close>

definition invoiceSearch :: search_options where
  "invoiceSearch =
     \<lparr>search_type = ''invoice'',
      filters = [Condition ''status'' ''anyof'' ''CustInvc:A'', Conj,
                 Condition ''duedate'' ''before'' ''lastmonth'', Conj,
                 Condition ''mainline'' ''is'' ''T''],
      columns = [''entity'', ''tranid'', ''amount'', ''duedate'']\<rparr>"

text \<open>The local variables of \<open>searchOverdueInvoices\<close> that the callback updates.\<close>

record search_vars =
  customerInvoices :: "invoice list js_object"
  processedInvoices :: "bool js_object"
  invoiceCount :: nat

definition invoiceKey :: "string \<Rightarrow> string \<Rightarrow> string" where
  "invoiceKey customerId number = customerId @ ''_'' @ number"

text \<open>\<open>if (processedInvoices[invoiceKey])\<close>: an own entry is \<open>true\<close>, an inherited one is truthy.\<close>

definition already_processed :: "bool js_object \<Rightarrow> string \<Rightarrow> bool" where
  "already_processed processed k =
     (case get_property processed k of Own b \<Rightarrow> b | Inherited \<Rightarrow> True | Undefined \<Rightarrow> False)"

text \<open>
  The callback handed to \<open>each\<close>. Its body is a \<open>try\<close> whose \<open>catch\<close> logs and
  returns \<open>true\<close>; the only statement that can throw is the \<open>push\<close>, after the key
  has been recorded and the count incremented.
\<close>

definition searchOverdueInvoices_callback ::
  "'w host \<Rightarrow> search_result \<Rightarrow> search_vars \<times> 'w run_state
     \<Rightarrow> (bool, search_vars \<times> 'w run_state) completion" where
  "searchOverdueInvoices_callback h result vs =
     (case vs of (v, s) \<Rightarrow>
      let customerId = entity result;
          key = invoiceKey (entity result) (tranid result)
      in if \<not> truthy customerId then Normal True (v, s)
         else if already_processed (processedInvoices v) key then Normal True (v, s)
         else
           (let v1 = v\<lparr>processedInvoices := put_property (processedInvoices v) key True,
                       invoiceCount := invoiceCount v + 1\<rparr>;
                dueDate = Date_parse h (duedate result)
            in case read_clock h s of (now, s1) \<Rightarrow>
               (let summary = \<lparr>invoiceNumber = tranid result, amount = amount_col result,
                                daysOverdue = compute_daysOverdue now dueDate\<rparr>
                in (case get_property (customerInvoices v1) customerId of
                      Undefined \<Rightarrow>
                        Normal True
                          (v1\<lparr>customerInvoices :=
                                put_property (customerInvoices v1) customerId [summary]\<rparr>, s1)
                    | Own invs \<Rightarrow>
                        Normal True
                          (v1\<lparr>customerInvoices :=
                                put_property (customerInvoices v1) customerId (invs @ [summary])\<rparr>, s1)
                    | Inherited \<Rightarrow>
                        Normal True
                          (v1, log_write ERROR ''Invoice Processing Error''
                                 (''Error processing invoice: '' @ message TypeError_push) s1)))))"

definition customer_invoices_line :: "string \<Rightarrow> invoice list \<Rightarrow> string" where
  "customer_invoices_line customerId invs =
     ''Customer ID '' @ customerId @ '': '' @ string_of_nat (length invs) @ '' invoices - ''
     @ join '', '' (map invoiceNumber invs)"

definition searchOverdueInvoices_try ::
  "'w host \<Rightarrow> 'w run_state \<Rightarrow> (invoice list js_object, 'w run_state) completion" where
  "searchOverdueInvoices_try h s =
     (case search_each h invoiceSearch (world s) of ((rows, failure), w) \<Rightarrow>
      (case each (searchOverdueInvoices_callback h) rows
              (\<lparr>customerInvoices = [], processedInvoices = [], invoiceCount = 0\<rparr>,
               s\<lparr>world := w, calls := calls s @ [SearchRun invoiceSearch]\<rparr>) of
         Throw e (v, s1) \<Rightarrow> Throw e s1
       | Normal u (v, s1) \<Rightarrow>
           (case failure of
              Some e \<Rightarrow> Throw e s1
            | None \<Rightarrow>
                Normal (customerInvoices v)
                  (foldl (\<lambda>t p. log_write AUDIT ''Customer Invoices''
                                   (customer_invoices_line (fst p) (snd p)) t)
                     (log_write AUDIT ''Invoices Found''
                        (''Total unique overdue invoices: '' @ string_of_nat (invoiceCount v)) s1)
                     (for_in (customerInvoices v))))))"

definition searchOverdueInvoices ::
  "'w host \<Rightarrow> 'w run_state \<Rightarrow> (invoice list js_object, 'w run_state) completion" where
  "searchOverdueInvoices h s =
     (case searchOverdueInvoices_try h s of
        Normal groups s1 \<Rightarrow> Normal groups s1
      | Throw e s1 \<Rightarrow>
          Throw e (log_write ERROR ''Search Error''
                     (''Error searching overdue invoices: '' @ message e) s1))"

text \<open>The administrator's identifier in the host's addressing scheme.\<close>

definition admin_id :: js_value where
  "admin_id = JSNumber (Num (- 5))"

definition getSenderId ::
  "'w host \<Rightarrow> string option \<Rightarrow> string \<Rightarrow> 'w run_state \<Rightarrow> (js_value, 'w run_state) completion" where
  "getSenderId h salesRepId customerName s =
     (case salesRepId of
        None \<Rightarrow> Normal admin_id s
      | Some rep \<Rightarrow>
          if \<not> truthy rep then Normal admin_id s
          else
            (case invoke (LookupFields ''employee'' rep) (lookupFields_employee h rep) s of
               Throw e s1 \<Rightarrow>
                 Normal admin_id
                   (log_write ERROR ''Sales Rep Load Error''
                      (''Could not load sales rep record for ID '' @ rep @ '': '' @ message e) s1)
             | Normal salesRepEmail s1 \<Rightarrow>
                 if truthy salesRepEmail then Normal (JSNumber (parseInt rep)) s1
                 else
                   Normal admin_id
                     (log_write AUDIT ''Sales Rep Missing Email''
                        (''Sales rep for customer '' @ customerName
                         @ '' has no email. Using admin ID.'') s1)))"

definition csv_header :: string where
  "csv_header =
     ''Customer Name,Customer Email,Invoice Document Number,Invoice Amount,Days Overdue'' @ [LF]"

definition csv_row :: "string \<Rightarrow> string \<Rightarrow> invoice \<Rightarrow> string" where
  "csv_row customerName customerEmail iv =
     [DQ] @ customerName @ [DQ] @ '','' @ [DQ] @ customerEmail @ [DQ] @ '',''
     @ invoiceNumber iv @ '','' @ amount iv @ '','' @ string_of_number (daysOverdue iv) @ [LF]"

text \<open>The \<open>forEach\<close> that appends one row to \<open>csvContent\<close> for each invoice.\<close>

definition csvContent :: "string \<Rightarrow> string \<Rightarrow> invoice list \<Rightarrow> string" where
  "csvContent customerName customerEmail invoices =
     foldl (\<lambda>csv iv. csv @ csv_row customerName customerEmail iv) csv_header invoices"

definition alnum_chars :: string where
  "alnum_chars = ''abcdefghijklmnopqrstuvwxyzABCDEFGHIJKLMNOPQRSTUVWXYZ0123456789''"

text \<open>\<open>customerName.replace(/[^a-zA-Z0-9]/g, '_')\<close>\<close>

definition replace_non_alnum :: "string \<Rightarrow> string" where
  "replace_non_alnum s = map (\<lambda>c. if c \<in> set alnum_chars then c else CHR ''_'') s"

definition createCSVFile_try ::
  "'w host \<Rightarrow> string \<Rightarrow> string \<Rightarrow> invoice list \<Rightarrow> 'w run_state
     \<Rightarrow> (file_handle, 'w run_state) completion" where
  "createCSVFile_try h customerName customerEmail invoices s =
     (case read_clock h s of (now, s1) \<Rightarrow>
      let opts = \<lparr>file_name = ''Overdue_Invoices_'' @ replace_non_alnum customerName @ ''_''
                               @ string_of_int now @ ''.csv'',
                  fileType = ''CSV'',
                  contents = csvContent customerName customerEmail invoices,
                  folder = Some 1226\<rparr>
      in (case invoke (FileCreate opts) (file_create h opts) s1 of
            Throw e s2 \<Rightarrow> Throw e s2
          | Normal csvFile s2 \<Rightarrow>
              (case invoke (FileSave csvFile) (file_save h csvFile) s2 of
                 Throw e s3 \<Rightarrow> Throw e s3
               | Normal fileId s3 \<Rightarrow>
                   invoke (FileLoad fileId) (file_load h fileId)
                     (log_write DEBUG ''CSV File Created''
                        (''File ID: '' @ string_of_int fileId @ '' for customer '' @ customerName)
                        s3))))"

definition createCSVFile ::
  "'w host \<Rightarrow> string \<Rightarrow> string \<Rightarrow> invoice list \<Rightarrow> 'w run_state
     \<Rightarrow> (file_handle, 'w run_state) completion" where
  "createCSVFile h customerName customerEmail invoices s =
     (case createCSVFile_try h customerName customerEmail invoices s of
        Normal f s1 \<Rightarrow> Normal f s1
      | Throw e s1 \<Rightarrow>
          Throw e (log_write ERROR ''CSV Creation Error''
                     (''Error creating CSV file for '' @ customerName @ '': '' @ message e) s1))"

definition email_body :: "string \<Rightarrow> string" where
  "email_body customerName =
     ''Dear '' @ customerName @ '','' @ [LF, LF] @ ''Please find attached your overdue invoices.''"

definition sendCustomerEmail_try ::
  "'w host \<Rightarrow> string \<Rightarrow> invoice list \<Rightarrow> 'w run_state \<Rightarrow> (unit, 'w run_state) completion" where
  "sendCustomerEmail_try h customerId invoices s =
     (case invoke (LookupFields ''customer'' customerId) (lookupFields_customer h customerId) s of
        Throw e s1 \<Rightarrow> Throw e s1
      | Normal customerFields s1 \<Rightarrow>
          let customerName =
                (if truthy (companyname customerFields) then companyname customerFields
                 else if truthy (firstname customerFields) then firstname customerFields
                 else ''Customer'');
              customerEmail = email customerFields;
              salesRepId = (case salesrep customerFields of [] \<Rightarrow> None | opt # rest \<Rightarrow> Some (fst opt))
          in if \<not> truthy customerEmail then
               Normal ()
                 (log_write ERROR ''Missing Email''
                    (''Customer '' @ customerName @ '' (ID: '' @ customerId
                     @ '') has no email. Skipping.'') s1)
             else
               (case getSenderId h salesRepId customerName s1 of
                  Throw e s2 \<Rightarrow> Throw e s2
                | Normal senderId s2 \<Rightarrow>
                    (case createCSVFile h customerName customerEmail invoices s2 of
                       Throw e s3 \<Rightarrow> Throw e s3
                     | Normal csvFile s3 \<Rightarrow>
                         (case invoke
                                 (EmailSend \<lparr>author = senderId, recipients = customerEmail,
                                             subject = ''Overdue Invoice Notification'',
                                             body = email_body customerName,
                                             attachments = [csvFile]\<rparr>)
                                 (email_send h \<lparr>author = senderId, recipients = customerEmail,
                                                subject = ''Overdue Invoice Notification'',
                                                body = email_body customerName,
                                                attachments = [csvFile]\<rparr>) s3 of
                            Throw e s4 \<Rightarrow> Throw e s4
                          | Normal u s4 \<Rightarrow>
                              Normal ()
                                (log_write AUDIT ''Email Sent''
                                   (''Email sent to '' @ customerEmail @ '' with ''
                                    @ string_of_nat (length invoices) @ '' overdue invoices.'')
                                   s4)))))"

definition sendCustomerEmail ::
  "'w host \<Rightarrow> string \<Rightarrow> invoice list \<Rightarrow> 'w run_state \<Rightarrow> (unit, 'w run_state) completion" where
  "sendCustomerEmail h customerId invoices s =
     (case sendCustomerEmail_try h customerId invoices s of
        Normal u s1 \<Rightarrow> Normal () s1
      | Throw e s1 \<Rightarrow>
          Throw e (log_write ERROR ''Email Send Error''
                     (''Failed to send email to customer ID '' @ customerId @ '': '' @ message e)
                     s1))"

text \<open>
  The loop of \<open>processCustomerNotifications\<close>: each iteration is a \<open>try\<close> around
  \<open>sendCustomerEmail\<close> whose \<open>catch\<close> logs and goes on.
\<close>

definition notify_loop ::
  "'w host \<Rightarrow> (string \<times> invoice list) list \<Rightarrow> 'w run_state \<Rightarrow> (unit, 'w run_state) completion" where
  "notify_loop h =
     for_in_try (\<lambda>p. sendCustomerEmail h (fst p) (snd p))
       (\<lambda>customerId e.
          log_write ERROR ''Customer Processing Error''
            (''Failed to process customer ID '' @ customerId @ '': '' @ message e))"

definition processCustomerNotifications ::
  "'w host \<Rightarrow> invoice list js_object \<Rightarrow> 'w run_state \<Rightarrow> (unit, 'w run_state) completion" where
  "processCustomerNotifications h groups s = notify_loop h (for_in groups) s"

definition execute_try :: "'w host \<Rightarrow> 'w run_state \<Rightarrow> (unit, 'w run_state) completion" where
  "execute_try h s =
     (case searchOverdueInvoices h
             (log_write AUDIT ''Script Started'' ''Monthly Overdue Invoice Email Notification'' s) of
        Throw e s1 \<Rightarrow> Throw e s1
      | Normal groups s1 \<Rightarrow>
          if length (Object_keys groups) = 0 then
            Normal ()
              (log_write AUDIT ''No Invoices Found''
                 ''No overdue invoices were found for the previous month.'' s1)
          else
            (case processCustomerNotifications h groups
                    (log_write AUDIT ''Customers to Notify''
                       (''Total customers with overdue invoices: ''
                        @ string_of_nat (length (Object_keys groups))) s1) of
               Throw e s2 \<Rightarrow> Throw e s2
             | Normal u s2 \<Rightarrow>
                 Normal ()
                   (log_write AUDIT ''Script End''
                      ''Overdue Invoice Email Notification script completed successfully.'' s2)))"

definition execute :: "'w host \<Rightarrow> 'w run_state \<Rightarrow> (unit, 'w run_state) completion" where
  "execute h s =
     (case execute_try h s of
        Normal u s1 \<Rightarrow> Normal () s1
      | Throw e s1 \<Rightarrow>
          Throw e (log_write ERROR ''Script Execution Error''
                     (''Fatal error in execute function: '' @ message e) s1))"

section \<open>The second script\<close>

text \<open>
  \<^verbatim>\<open>_jj_sc_monthly_overdue_email.js\<close>, second module: \<open>execute\<close>,
  \<open>getOverdueInvoices\<close>, \<open>notifyCustomers\<close>, \<open>getSenderId\<close> and \<open>generateCsvFile\<close>.
  Names that the primary script already uses carry the suffix \<open>2\<close>.
\<close>

definition invoiceSearch2 :: search_options where
  "invoiceSearch2 =
     \<lparr>search_type = ''invoice'',
      filters = [Condition ''status'' ''anyof'' ''CustInvc:A'', Conj,
                 Condition ''duedate'' ''before'' ''lastmonth''],
      columns = [''entity'', ''tranid'', ''amount'', ''duedate'', ''salesrep'']\<rparr>"

text \<open>
  The callback has no \<open>try\<close>: a \<open>push\<close> on an inherited property throws out of
  \<open>each\<close>.
\<close>

definition getOverdueInvoices_callback ::
  "'w host \<Rightarrow> search_result \<Rightarrow> invoice list js_object \<times> 'w run_state
     \<Rightarrow> (bool, invoice list js_object \<times> 'w run_state) completion" where
  "getOverdueInvoices_callback h result gs =
     (case gs of (groups, s) \<Rightarrow>
      let customerId = entity result
      in if \<not> truthy customerId then Normal True (groups, s)
         else
           (case read_clock h s of (now, s1) \<Rightarrow>
            (let summary = \<lparr>invoiceNumber = tranid result, amount = amount_col result,
                             daysOverdue =
                               compute_daysOverdue now (Date_parse h (duedate result))\<rparr>
             in (case get_property groups customerId of
                   Undefined \<Rightarrow> Normal True (put_property groups customerId [summary], s1)
                 | Own invs \<Rightarrow> Normal True (put_property groups customerId (invs @ [summary]), s1)
                 | Inherited \<Rightarrow> Throw TypeError_push (groups, s1)))))"

definition getOverdueInvoices ::
  "'w host \<Rightarrow> 'w run_state \<Rightarrow> (invoice list js_object, 'w run_state) completion" where
  "getOverdueInvoices h s =
     (case search_each h invoiceSearch2 (world s) of ((rows, failure), w) \<Rightarrow>
      (case each (getOverdueInvoices_callback h) rows
              ([], s\<lparr>world := w, calls := calls s @ [SearchRun invoiceSearch2]\<rparr>) of
         Throw e (groups, s1) \<Rightarrow> Throw e s1
       | Normal u (groups, s1) \<Rightarrow>
           (case failure of Some e \<Rightarrow> Throw e s1 | None \<Rightarrow> Normal groups s1)))"

definition getSenderId2 ::
  "'w host \<Rightarrow> string \<Rightarrow> 'w run_state \<Rightarrow> (js_value, 'w run_state) completion" where
  "getSenderId2 h salesRepId s =
     (if truthy salesRepId then
        (case invoke (RecordLoad ''employee'' salesRepId) (record_load_employee h salesRepId) s of
           Throw e s1 \<Rightarrow>
             Normal admin_id
               (log_write ERROR ''Sales Rep Load Error''
                  (''Could not load sales rep record for ID '' @ salesRepId @ '': '' @ message e)
                  s1)
         | Normal salesRepEmail s1 \<Rightarrow>
             if truthy salesRepEmail then Normal (JSString salesRepId) s1
             else Normal admin_id s1)
      else Normal admin_id s)"

definition csv_header2 :: string where
  "csv_header2 = ''Invoice Number,Amount,Days Overdue'' @ [LF]"

definition csv_row2 :: "invoice \<Rightarrow> string" where
  "csv_row2 iv =
     invoiceNumber iv @ '','' @ amount iv @ '','' @ string_of_number (daysOverdue iv) @ [LF]"

definition csvContent2 :: "invoice list \<Rightarrow> string" where
  "csvContent2 invoices = foldl (\<lambda>csv iv. csv @ csv_row2 iv) csv_header2 invoices"

definition csv_options2 :: "string \<Rightarrow> invoice list \<Rightarrow> file_options" where
  "csv_options2 customerName invoices =
     \<lparr>file_name = ''Overdue_Invoices_'' @ customerName @ ''.csv'',
      fileType = ''CSV'',
      contents = csvContent2 invoices,
      folder = None\<rparr>"

definition generateCsvFile ::
  "'w host \<Rightarrow> string \<Rightarrow> invoice list \<Rightarrow> 'w run_state \<Rightarrow> (file_handle, 'w run_state) completion" where
  "generateCsvFile h customerName invoices s =
     invoke (FileCreate (csv_options2 customerName invoices))
       (file_create h (csv_options2 customerName invoices)) s"

text \<open>The body of the \<open>try\<close> of one iteration of \<open>notifyCustomers\<close>.\<close>

definition notifyCustomers_try ::
  "'w host \<Rightarrow> string \<Rightarrow> invoice list \<Rightarrow> 'w run_state \<Rightarrow> (unit, 'w run_state) completion" where
  "notifyCustomers_try h customerId invoices s =
     (case invoke (RecordLoad ''customer'' customerId) (record_load_customer h customerId) s of
        Throw e s1 \<Rightarrow> Throw e s1
      | Normal customerRecord s1 \<Rightarrow>
          let customerName =
                (if truthy (companyname customerRecord) then companyname customerRecord
                 else firstname customerRecord);
              customerEmail = email customerRecord
          in if \<not> truthy customerEmail then Normal () s1
             else
               (case getSenderId2 h (salesrep customerRecord) s1 of
                  Throw e s2 \<Rightarrow> Throw e s2
                | Normal senderId s2 \<Rightarrow>
                    (case generateCsvFile h customerName invoices s2 of
                       Throw e s3 \<Rightarrow> Throw e s3
                     | Normal csvFile s3 \<Rightarrow>
                         invoke
                           (EmailSend \<lparr>author = senderId, recipients = customerEmail,
                                       subject = ''Overdue Invoice Notification'',
                                       body = email_body customerName,
                                       attachments = [csvFile]\<rparr>)
                           (email_send h \<lparr>author = senderId, recipients = customerEmail,
                                          subject = ''Overdue Invoice Notification'',
                                          body = email_body customerName,
                                          attachments = [csvFile]\<rparr>) s3)))"

definition notifyCustomers_loop ::
  "'w host \<Rightarrow> (string \<times> invoice list) list \<Rightarrow> 'w run_state \<Rightarrow> (unit, 'w run_state) completion" where
  "notifyCustomers_loop h =
     for_in_try (\<lambda>p. notifyCustomers_try h (fst p) (snd p))
       (\<lambda>customerId e.
          log_write ERROR ''Email Error''
            (''Failed to send email to customer ID '' @ customerId @ '': '' @ message e))"

definition notifyCustomers ::
  "'w host \<Rightarrow> invoice list js_object \<Rightarrow> 'w run_state \<Rightarrow> (unit, 'w run_state) completion" where
  "notifyCustomers h groups s = notifyCustomers_loop h (for_in groups) s"

definition execute2 :: "'w host \<Rightarrow> 'w run_state \<Rightarrow> (unit, 'w run_state) completion" where
  "execute2 h s =
     (case getOverdueInvoices h s of
        Throw e s1 \<Rightarrow> Throw e s1
      | Normal groups s1 \<Rightarrow>
          if length (Object_keys groups) = 0 then
            Normal ()
              (log_write AUDIT ''No Invoices Found''
                 ''No overdue invoices were found for the previous month.'' s1)
          else notifyCustomers h groups s1)"

section \<open>The third script\<close>

text \<open>
  \<^verbatim>\<open>unnamed/part_000\<close>: a single \<open>execute\<close> holding the search, the grouping
  callback and the notification loop. Its parts carry the prefix \<open>execute3\<close>. The
  search definition and the text of the CSV are those of the second script.
\<close>

definition string_of_value :: "js_value \<Rightarrow> string" where
  "string_of_value x = (case x of JSNumber n \<Rightarrow> string_of_number n | JSString s \<Rightarrow> s)"

definition execute3_callback ::
  "'w host \<Rightarrow> search_result \<Rightarrow> (invoice list js_object \<times> nat) \<times> 'w run_state
     \<Rightarrow> (bool, (invoice list js_object \<times> nat) \<times> 'w run_state) completion" where
  "execute3_callback h result gs =
     (case gs of ((groups, count), s) \<Rightarrow>
      let customerId = entity result
      in if \<not> truthy customerId then
           Normal True
             ((groups, count),
              log_write ERROR ''Missing Customer ID'' ''Skipping invoice with no customer ID.'' s)
         else
           (case read_clock h s of (now, s1) \<Rightarrow>
            (let summary = \<lparr>invoiceNumber = tranid result, amount = amount_col result,
                             daysOverdue =
                               compute_daysOverdue now (Date_parse h (duedate result))\<rparr>;
                 s2 = log_write DEBUG ''Invoice Found''
                        (''Customer ID: '' @ customerId @ '', Invoice: '' @ tranid result
                         @ '', Amount: '' @ amount_col result @ '', Days Overdue: ''
                         @ string_of_number (daysOverdue summary)) s1
             in (case get_property groups customerId of
                   Undefined \<Rightarrow>
                     Normal True ((put_property groups customerId [summary], count + 1), s2)
                 | Own invs \<Rightarrow>
                     Normal True
                       ((put_property groups customerId (invs @ [summary]), count + 1), s2)
                 | Inherited \<Rightarrow> Throw TypeError_push ((groups, count + 1), s2)))))"

definition email_body3 :: "string \<Rightarrow> string" where
  "email_body3 customerName =
     ''Dear '' @ customerName @ '','' @ [LF, LF] @ ''Please find attached your overdue invoices''"

text \<open>The body of the \<open>try\<close> of one iteration of the notification loop.\<close>

definition execute3_customer_try ::
  "'w host \<Rightarrow> string \<Rightarrow> invoice list \<Rightarrow> 'w run_state \<Rightarrow> (unit, 'w run_state) completion" where
  "execute3_customer_try h customerId invoices s =
     (case invoke (RecordLoad ''customer'' customerId) (record_load_customer h customerId) s of
        Throw e s1 \<Rightarrow> Throw e s1
      | Normal customerRecord s1 \<Rightarrow>
          let customerName =
                (if truthy (companyname customerRecord) then companyname customerRecord
                 else firstname customerRecord);
              customerEmail = email customerRecord;
              salesRepId = salesrep customerRecord
          in if \<not> truthy customerEmail then
               Normal ()
                 (log_write ERROR ''Missing Email''
                    (''Customer '' @ customerName @ '' (ID: '' @ customerId
                     @ '') has no email. Skipping.'') s1)
             else
               (let senderId =
                      (if truthy salesRepId then JSString salesRepId
                       else JSNumber (Num (currentUser_id h (world s1))));
                    s2 = log_write AUDIT ''Preparing Email''
                           (''Customer: '' @ customerName @ '', Email: '' @ customerEmail
                            @ '', Sender ID: '' @ string_of_value senderId) s1
                in (case invoke (FileCreate (csv_options2 customerName invoices))
                             (file_create h (csv_options2 customerName invoices)) s2 of
                      Throw e s3 \<Rightarrow> Throw e s3
                    | Normal csvFile s3 \<Rightarrow>
                        (case invoke
                                (EmailSend \<lparr>author = senderId, recipients = customerEmail,
                                            subject = ''Overdue Invoice Notification'',
                                            body = email_body3 customerName,
                                            attachments = [csvFile]\<rparr>)
                                (email_send h \<lparr>author = senderId, recipients = customerEmail,
                                               subject = ''Overdue Invoice Notification'',
                                               body = email_body3 customerName,
                                               attachments = [csvFile]\<rparr>) s3 of
                           Throw e s4 \<Rightarrow> Throw e s4
                         | Normal u s4 \<Rightarrow>
                             Normal ()
                               (log_write AUDIT ''Email Sent''
                                  (''Email sent to '' @ customerEmail @ '' with ''
                                   @ string_of_nat (length invoices) @ '' overdue invoices.'')
                                  s4)))))"

definition execute3_loop ::
  "'w host \<Rightarrow> (string \<times> invoice list) list \<Rightarrow> 'w run_state \<Rightarrow> (unit, 'w run_state) completion" where
  "execute3_loop h =
     for_in_try (\<lambda>p. execute3_customer_try h (fst p) (snd p))
       (\<lambda>customerId e.
          log_write ERROR ''Email Error''
            (''Failed to send email to customer ID '' @ customerId @ '': '' @ message e))"

definition execute3 :: "'w host \<Rightarrow> 'w run_state \<Rightarrow> (unit, 'w run_state) completion" where
  "execute3 h s =
     (let s0 = log_write AUDIT ''Script Started'' [] s
      in (case search_each h invoiceSearch2 (world s0) of ((rows, failure), w) \<Rightarrow>
          (case each (execute3_callback h) rows
                  (([], 0), s0\<lparr>world := w, calls := calls s0 @ [SearchRun invoiceSearch2]\<rparr>) of
             Throw e (gc, s1) \<Rightarrow> Throw e s1
           | Normal u ((groups, count), s1) \<Rightarrow>
               (case failure of
                  Some e \<Rightarrow> Throw e s1
                | None \<Rightarrow>
                    if count = 0 then
                      Normal ()
                        (log_write AUDIT ''No Invoices Found''
                           ''No overdue invoices were found for the previous month.'' s1)
                    else
                      (case execute3_loop h (for_in groups)
                              (log_write AUDIT ''Customers to Notify''
                                 (''Total customers with overdue invoices: ''
                                  @ string_of_nat (length (Object_keys groups)))
                                 (log_write AUDIT ''Invoices Found''
                                    (''Total overdue invoices: '' @ string_of_nat count) s1)) of
                         Throw e s2 \<Rightarrow> Throw e s2
                       | Normal u s2 \<Rightarrow>
                           Normal ()
                             (log_write AUDIT ''Script End''
                                ''Overdue Invoice Email Notification script completed.''
                                s2))))))"

section \<open>Outcomes and traces\<close>

text \<open>
  The state a completion carries, whichever way the call ended, and whether the call
  returned.
\<close>

fun state_of :: "('a, 's) completion \<Rightarrow> 's" where
  "state_of (Normal x s) = s"
| "state_of (Throw e s) = s"


text \<open>The \<open>email.send\<close> calls among the host calls of a run, in order.\<close>

fun sent_emails :: "host_call list \<Rightarrow> email_options list" where
  "sent_emails [] = []"
| "sent_emails (EmailSend m # cs) = m # sent_emails cs"
| "sent_emails (c # cs) = sent_emails cs"

section \<open>Notions used in the statements\<close>

text \<open>
  The summary a grouping callback builds for a row when it reads the clock in state
  \<open>s\<close>, the key of a row in the primary script, and the rows that script does not skip
  outright: those with a customer identifier whose key is not a name inherited from
  \<open>Object.prototype\<close>.
\<close>

definition row_summary :: "'w host \<Rightarrow> search_result \<Rightarrow> 'w run_state \<Rightarrow> invoice" where
  "row_summary h r s =
     \<lparr>invoiceNumber = tranid r, amount = amount_col r,
      daysOverdue = compute_daysOverdue (fst (Date_now h (world s))) (Date_parse h (duedate r))\<rparr>"



text \<open>
  Invariants of the variables of \<open>searchOverdueInvoices\<close>: every group is not empty,
  holds pairwise distinct invoice numbers and only invoices whose key is recorded; the
  recorded keys are distinct, all set to \<open>true\<close>, and counted by \<open>invoiceCount\<close>; the
  invoice of a row whose key is recorded is in its customer's group.
\<close>

definition entry_ok :: "bool js_object \<Rightarrow> string \<times> invoice list \<Rightarrow> bool" where
  "entry_ok processed p =
     (snd p \<noteq> [] \<and> distinct (map invoiceNumber (snd p)) \<and>
      list_all (\<lambda>i. map_of processed (invoiceKey (fst p) (invoiceNumber i)) = Some True) (snd p))"

definition groups_ok :: "search_vars \<Rightarrow> bool" where
  "groups_ok v =
     (distinct (map fst (customerInvoices v)) \<and>
      list_all (entry_ok (processedInvoices v)) (customerInvoices v))"



text \<open>The rows of a CSV text: its lines, each ended by a line feed.\<close>

fun csv_lines :: "string \<Rightarrow> string list" where
  "csv_lines [] = []"
| "csv_lines (c # cs) =
     (if c = LF then [] # csv_lines cs
      else (case csv_lines cs of [] \<Rightarrow> [[c]] | l # ls \<Rightarrow> (c # l) # ls))"

section \<open>An in-memory host\<close>

text \<open>
  A host with a fixed search result, customer table and employee table, used to run the
  scripts on concrete data. Its world is the clock, in milliseconds; due dates are
  written as decimal time values. A customer or employee missing from its table cannot
  be loaded; files and emails always succeed.
\<close>

definition memory_host ::
  "search_result list \<Rightarrow> (string \<times> (string \<times> string) list customer) list
     \<Rightarrow> (string \<times> string) list \<Rightarrow> int host" where
  "memory_host rows customers employees =
     \<lparr>search_each = (\<lambda>opts w. ((rows, None), w)),
      Date_parse = (\<lambda>d. if d \<noteq> [] \<and> list_all is_digit d then Num (int (nat_of_digits d)) else NaN),
      Date_now = (\<lambda>w. (w, w)),
      lookupFields_customer =
        (\<lambda>k w. case map_of customers k of
                  None \<Rightarrow> Throw (JSError ''That record does not exist.'') w
                | Some c \<Rightarrow> Normal c w),
      lookupFields_employee =
        (\<lambda>k w. case map_of employees k of
                  None \<Rightarrow> Throw (JSError ''That record does not exist.'') w
                | Some e \<Rightarrow> Normal e w),
      record_load_customer =
        (\<lambda>k w. case map_of customers k of
                  None \<Rightarrow> Throw (JSError ''That record does not exist.'') w
                | Some c \<Rightarrow>
                    Normal \<lparr>companyname = companyname c, firstname = firstname c,
                            email = email c,
                            salesrep = (case salesrep c of [] \<Rightarrow> [] | opt # rest \<Rightarrow> fst opt)\<rparr> w),
      record_load_employee =
        (\<lambda>k w. case map_of employees k of
                  None \<Rightarrow> Throw (JSError ''That record does not exist.'') w
                | Some e \<Rightarrow> Normal e w),
      file_create = (\<lambda>opts w. Normal 1 w),
      file_save = (\<lambda>f w. Normal 7 w),
      file_load = (\<lambda>k w. Normal 1 w),
      email_send = (\<lambda>m w. Normal () w),
      currentUser_id = (\<lambda>w. 3)\<rparr>"

definition start :: "int \<Rightarrow> int run_state" where
  "start now = \<lparr>world = now, logs = [], calls = []\<rparr>"

text \<open>
  Example data: an invoice of customer 1 due on 2024-01-01, read on 2024-03-01; the
  customer, whose sales representative is employee 42; a customer without an email
  address; employees 42 (with an email address) and 43 (without one).
\<close>

definition march_1st :: int where
  "march_1st = 1709251200000"

definition row_INV1 :: search_result where
  "row_INV1 = \<lparr>entity = ''1'', tranid = ''INV1'', amount_col = ''100'',
               duedate = ''1704067200000''\<rparr>"

definition row_INV2 :: search_result where
  "row_INV2 = \<lparr>entity = ''2'', tranid = ''INV2'', amount_col = ''250'',
               duedate = ''1704067200000''\<rparr>"

definition summary_INV1 :: invoice where
  "summary_INV1 = \<lparr>invoiceNumber = ''INV1'', amount = ''100'', daysOverdue = Num 60\<rparr>"

definition summary_INV2 :: invoice where
  "summary_INV2 = \<lparr>invoiceNumber = ''INV2'', amount = ''250'', daysOverdue = Num 60\<rparr>"

definition acme :: "(string \<times> string) list customer" where
  "acme = \<lparr>companyname = ''ACME'', firstname = [], email = ''a@x.com'',
           salesrep = [(''42'', ''Rep'')]\<rparr>"

definition no_email_customer :: "(string \<times> string) list customer" where
  "no_email_customer = \<lparr>companyname = ''Bolt'', firstname = [], email = [], salesrep = []\<rparr>"

definition staff :: "(string \<times> string) list" where
  "staff = [(''42'', ''rep@x.com''), (''43'', [])]"

section \<open>Evaluation on concrete data\<close>

lemma compute_daysOverdue_Num:
  "compute_daysOverdue now (Num d) = Num ((now - d) div 86400000)"
proof -
  have "\<lfloor>real_of_int (now - d) / real_of_int 86400000\<rfloor> = (now - d) div 86400000"
    by (rule floor_divide_of_int_eq)
  then show ?thesis
    by (simp add: compute_daysOverdue_def)
qed

lemmas js_defs =
  truthy_def get_property_def put_property_def Object_prototype_def for_in_def Object_keys_def
  is_array_index_def is_digit_def digit_chars_def nat_of_digits_def digit_value_def
  digits_rev.simps string_of_nat_def string_of_int_def string_of_number_def string_of_value_def
  LF_def DQ_def Let_def

lemmas host_defs =
  memory_host_def start_def read_clock_def log_write_def invoke_def compute_daysOverdue_Num
  march_1st_def row_INV1_def row_INV2_def summary_INV1_def summary_INV2_def acme_def
  no_email_customer_def staff_def

lemmas second_defs =
  execute2_def getOverdueInvoices_def getOverdueInvoices_callback_def notifyCustomers_def
  notifyCustomers_loop_def
  notifyCustomers_try_def getSenderId2_def generateCsvFile_def csv_options2_def csvContent2_def
  csv_header2_def csv_row2_def


lemmas primary_defs =
  searchOverdueInvoices_def searchOverdueInvoices_try_def searchOverdueInvoices_callback_def
  invoiceKey_def already_processed_def customer_invoices_line_def execute_def execute_try_def
  processCustomerNotifications_def notify_loop_def sendCustomerEmail_def
  sendCustomerEmail_try_def
  getSenderId_def createCSVFile_def createCSVFile_try_def csvContent_def csv_header_def
  csv_row_def replace_non_alnum_def alnum_chars_def email_body_def admin_id_def

section \<open>Colliding invoice keys\<close>

text \<open>
  C9. The key of the primary script is the concatenation of the customer identifier,
  an underscore and the invoice number. The pairs \<open>("1", "2_3")\<close> and \<open>("1_2", "3")\<close>
  differ and have the same key; on a search result holding both, the second invoice is
  counted nowhere: customer \<open>1_2\<close> gets no group, the count is 1 and no log entry
  mentions the row.
\<close>

theorem invoiceKey_collision_drops_invoice:
  "invoiceKey ''1'' ''2_3'' = invoiceKey ''1_2'' ''3''
   \<and> (''1'', ''2_3'') \<noteq> (''1_2'', ''3'')
   \<and> searchOverdueInvoices
         (memory_host
            [\<lparr>entity = ''1'', tranid = ''2_3'', amount_col = ''10.00'',
               duedate = ''1704067200000''\<rparr>,
             \<lparr>entity = ''1_2'', tranid = ''3'', amount_col = ''20.00'',
               duedate = ''1704067200000''\<rparr>] [] [])
         (start 1709251200000)
       = Normal [(''1'', [\<lparr>invoiceNumber = ''2_3'', amount = ''10.00'', daysOverdue = Num 60\<rparr>])]
           \<lparr>world = 1709251200000,
            logs = [(AUDIT, ''Invoices Found'', ''Total unique overdue invoices: 1''),
                    (AUDIT, ''Customer Invoices'', ''Customer ID 1: 1 invoices - 2_3'')],
            calls = [SearchRun invoiceSearch]\<rparr>"
  by (simp add: js_defs host_defs primary_defs)

section \<open>No matching invoice\<close>

lemma for_in_Nil: "for_in [] = []"
  by (simp add: for_in_def)

text \<open>
  C8. When the search hands no row to the callback, each script returns normally after
  the single host call of the search: its log ends with the entry
  \<open>No Invoices Found\<close>, and no customer is looked up, no file created, no email sent.
\<close>

theorem no_invoices_early_exit:
  "(search_each h invoiceSearch (world s) = (([], None), w) \<longrightarrow>
      execute h s =
        Normal ()
          \<lparr>world = w,
           logs = logs s @
             [(AUDIT, ''Script Started'', ''Monthly Overdue Invoice Email Notification''),
              (AUDIT, ''Invoices Found'', ''Total unique overdue invoices: 0''),
              (AUDIT, ''No Invoices Found'',
               ''No overdue invoices were found for the previous month.'')],
           calls = calls s @ [SearchRun invoiceSearch]\<rparr>)
   \<and> (search_each h invoiceSearch2 (world s) = (([], None), w) \<longrightarrow>
      execute2 h s =
        Normal ()
          \<lparr>world = w,
           logs = logs s @
             [(AUDIT, ''No Invoices Found'',
               ''No overdue invoices were found for the previous month.'')],
           calls = calls s @ [SearchRun invoiceSearch2]\<rparr>
      \<and> execute3 h s =
        Normal ()
          \<lparr>world = w,
           logs = logs s @
             [(AUDIT, ''Script Started'', []),
              (AUDIT, ''No Invoices Found'',
               ''No overdue invoices were found for the previous month.'')],
           calls = calls s @ [SearchRun invoiceSearch2]\<rparr>)"
  by (simp add: execute_def execute_try_def searchOverdueInvoices_def
      searchOverdueInvoices_try_def execute2_def getOverdueInvoices_def execute3_def
      Object_keys_def for_in_Nil log_write_def string_of_nat_def digits_rev.simps digit_chars_def)

theorem no_invoices_early_exit_witness:
  "search_each (memory_host [] [] []) invoiceSearch (world (start march_1st))
     = (([], None), march_1st)
   \<and> search_each (memory_host [] [] []) invoiceSearch2 (world (start march_1st))
     = (([], None), march_1st)
   \<and> execute (memory_host [] [] []) (start march_1st) =
        Normal ()
          \<lparr>world = march_1st,
           logs =
             [(AUDIT, ''Script Started'', ''Monthly Overdue Invoice Email Notification''),
              (AUDIT, ''Invoices Found'', ''Total unique overdue invoices: 0''),
              (AUDIT, ''No Invoices Found'',
               ''No overdue invoices were found for the previous month.'')],
           calls = [SearchRun invoiceSearch]\<rparr>
   \<and> execute2 (memory_host [] [] []) (start march_1st) =
        Normal ()
          \<lparr>world = march_1st,
           logs =
             [(AUDIT, ''No Invoices Found'',
               ''No overdue invoices were found for the previous month.'')],
           calls = [SearchRun invoiceSearch2]\<rparr>
   \<and> execute3 (memory_host [] [] []) (start march_1st) =
        Normal ()
          \<lparr>world = march_1st,
           logs =
             [(AUDIT, ''Script Started'', []),
              (AUDIT, ''No Invoices Found'',
               ''No overdue invoices were found for the previous month.'')],
           calls = [SearchRun invoiceSearch2]\<rparr>"
  using no_invoices_early_exit [of "memory_host [] [] []" "start march_1st" march_1st]
  by (simp add: memory_host_def start_def)

section \<open>Sender resolution\<close>





lemma sent_emails_append: "sent_emails (xs @ ys) = sent_emails xs @ sent_emails ys"
  by (induction xs rule: sent_emails.induct) simp_all




section \<open>Invariants of the grouping loops\<close>

lemma each_invariant:
  assumes "P s" and "\<And>r t. r \<in> set rows \<Longrightarrow> P t \<Longrightarrow> P (state_of (f r t))"
  shows "P (state_of (each f rows s))"
  using assms
proof (induction rows arbitrary: s)
  case Nil
  then show ?case by simp
next
  case (Cons r rows)
  have step: "P (state_of (f r s))"
    using Cons.prems by simp
  show ?case
  proof (cases "f r s")
    case (Normal continue s')
    with step have "P s'" by simp
    with Normal Cons show ?thesis by simp
  next
    case (Throw e s')
    with step show ?thesis by simp
  qed
qed

lemma get_property_Own: "get_property obj k = Own v \<longleftrightarrow> map_of obj k = Some v"
  by (simp add: get_property_def split: option.split)

lemma get_property_Undefined:
  "get_property obj k = Undefined \<longleftrightarrow> map_of obj k = None \<and> k \<notin> set Object_prototype"
  by (simp add: get_property_def split: option.split)


lemma map_of_put_property:
  "map_of (put_property obj k v) k' = (if k' = k then Some v else map_of obj k')"
  by (simp add: put_property_def update_conv')

lemma set_put_property: "set (put_property obj k v) \<subseteq> insert (k, v) (set obj)"
  unfolding put_property_def by (induction obj) auto

lemma distinct_put_property:
  "distinct (map fst obj) \<Longrightarrow> distinct (map fst (put_property obj k v))"
  by (simp add: put_property_def distinct_update)



lemma callback_step:
  "\<exists>v' s'. searchOverdueInvoices_callback h r (v, s) = Normal True (v', s') \<and>
     (if truthy (entity r)
         \<and> \<not> already_processed (processedInvoices v) (invoiceKey (entity r) (tranid r))
      then processedInvoices v'
             = put_property (processedInvoices v) (invoiceKey (entity r) (tranid r)) True
           \<and> invoiceCount v' = invoiceCount v + 1
           \<and> (case get_property (customerInvoices v) (entity r) of
                 Inherited \<Rightarrow> customerInvoices v' = customerInvoices v
               | Undefined \<Rightarrow>
                   customerInvoices v'
                     = put_property (customerInvoices v) (entity r) [row_summary h r s]
               | Own invs \<Rightarrow>
                   customerInvoices v'
                     = put_property (customerInvoices v) (entity r) (invs @ [row_summary h r s]))
      else v' = v)"
  by (auto simp: searchOverdueInvoices_callback_def row_summary_def read_clock_def Let_def
      split: prod.splits property.splits)

lemma already_processed_iff:
  "already_processed p k \<longleftrightarrow>
     map_of p k = Some True \<or> (map_of p k = None \<and> k \<in> set Object_prototype)"
  by (auto simp: already_processed_def get_property_def split: option.splits)


lemma entry_ok_put:
  "entry_ok processed p \<Longrightarrow> entry_ok (put_property processed k True) p"
  by (simp add: entry_ok_def list_all_iff map_of_put_property)

lemma entry_ok_single:
  "entry_ok (put_property processed (invoiceKey c (invoiceNumber i)) True) (c, [i])"
  by (simp add: entry_ok_def map_of_put_property)

lemma entry_ok_snoc:
  assumes "entry_ok processed (c, invs)"
    and "map_of processed (invoiceKey c (invoiceNumber i)) \<noteq> Some True"
  shows "entry_ok (put_property processed (invoiceKey c (invoiceNumber i)) True) (c, invs @ [i])"
proof -
  from assms have "invoiceNumber i \<notin> invoiceNumber ` set invs"
    by (auto simp: entry_ok_def list_all_iff)
  with assms(1) show ?thesis
    by (simp add: entry_ok_def list_all_iff map_of_put_property)
qed

lemma groups_ok_put:
  assumes "groups_ok v"
    and "processedInvoices v' = put_property (processedInvoices v) k True"
    and "customerInvoices v' = put_property (customerInvoices v) c invs"
    and "entry_ok (processedInvoices v') (c, invs)"
  shows "groups_ok v'"
proof -
  have "entry_ok (processedInvoices v') p" if "p \<in> set (customerInvoices v')" for p
  proof -
    from that assms(3) set_put_property [of "customerInvoices v" c invs]
    have "p \<in> set (customerInvoices v) \<or> p = (c, invs)" by auto
    then show ?thesis
    proof
      assume "p \<in> set (customerInvoices v)"
      with assms(1) have "entry_ok (processedInvoices v) p"
        by (simp add: groups_ok_def list_all_iff)
      then show ?thesis by (simp add: assms(2) entry_ok_put)
    next
      assume "p = (c, invs)"
      with assms(4) show ?thesis by simp
    qed
  qed
  moreover have "distinct (map fst (customerInvoices v'))"
    using assms(1) by (simp add: assms(3) groups_ok_def distinct_put_property)
  ultimately show ?thesis
    by (simp add: groups_ok_def list_all_iff)
qed

lemma groups_ok_step:
  assumes ok: "groups_ok v"
  shows "groups_ok (fst (state_of (searchOverdueInvoices_callback h r (v, s))))"
proof -
  from callback_step [of h r v s] obtain v' s' where
    res: "searchOverdueInvoices_callback h r (v, s) = Normal True (v', s')" and
    eff: "if truthy (entity r)
             \<and> \<not> already_processed (processedInvoices v) (invoiceKey (entity r) (tranid r))
          then processedInvoices v'
                 = put_property (processedInvoices v) (invoiceKey (entity r) (tranid r)) True
               \<and> invoiceCount v' = invoiceCount v + 1
               \<and> (case get_property (customerInvoices v) (entity r) of
                     Inherited \<Rightarrow> customerInvoices v' = customerInvoices v
                   | Undefined \<Rightarrow>
                       customerInvoices v'
                         = put_property (customerInvoices v) (entity r) [row_summary h r s]
                   | Own invs \<Rightarrow>
                       customerInvoices v'
                         = put_property (customerInvoices v) (entity r) (invs @ [row_summary h r s]))
          else v' = v"
    by blast
  have "groups_ok v'"
  proof (cases "truthy (entity r)
             \<and> \<not> already_processed (processedInvoices v) (invoiceKey (entity r) (tranid r))")
    case False
    with eff ok show ?thesis by simp
  next
    case True
    let ?k = "invoiceKey (entity r) (tranid r)"
    let ?i = "row_summary h r s"
    have sm: "invoiceNumber ?i = tranid r"
      by (simp add: row_summary_def)
    from True eff have proc: "processedInvoices v' = put_property (processedInvoices v) ?k True"
      by simp
    have fresh: "map_of (processedInvoices v) ?k \<noteq> Some True"
      using True by (simp add: already_processed_iff)
    show ?thesis
    proof (cases "get_property (customerInvoices v) (entity r)")
      case Inherited
      with True eff have ci: "customerInvoices v' = customerInvoices v" by simp
      with ok proc show ?thesis
        by (simp add: groups_ok_def list_all_iff entry_ok_put)
    next
      case Undefined
      with True eff have ci: "customerInvoices v'
          = put_property (customerInvoices v) (entity r) [?i]" by simp
      have "entry_ok (processedInvoices v') (entity r, [?i])"
        using entry_ok_single [of "processedInvoices v" "entity r" ?i] by (simp add: proc sm)
      with ok proc ci show ?thesis by (rule groups_ok_put)
    next
      case (Own invs)
      with True eff have ci: "customerInvoices v'
          = put_property (customerInvoices v) (entity r) (invs @ [?i])" by simp
      from Own have "(entity r, invs) \<in> set (customerInvoices v)"
        by (simp add: get_property_Own map_of_SomeD)
      with ok have "entry_ok (processedInvoices v) (entity r, invs)"
        by (simp add: groups_ok_def list_all_iff)
      then have "entry_ok (processedInvoices v') (entity r, invs @ [?i])"
        using entry_ok_snoc [of "processedInvoices v" "entity r" invs ?i] fresh
        by (simp add: proc sm)
      with ok proc ci show ?thesis by (rule groups_ok_put)
    qed
  qed
  with res show ?thesis by simp
qed

lemma groups_ok_each:
  assumes "groups_ok v"
  shows "groups_ok (fst (state_of (each (searchOverdueInvoices_callback h) rows (v, s))))"
proof (rule each_invariant [where P = "\<lambda>vs. groups_ok (fst vs)"])
  show "groups_ok (fst (v, s))" using assms by simp
next
  fix r and t :: "search_vars \<times> 'a run_state"
  assume "groups_ok (fst t)"
  then show "groups_ok (fst (state_of (searchOverdueInvoices_callback h r t)))"
    using groups_ok_step [of "fst t" h r "snd t"] by simp
qed










lemma log_write_fields:
  "logs (log_write lvl title details s) = logs s @ [(lvl, title, details)]"
  "calls (log_write lvl title details s) = calls s"
  "world (log_write lvl title details s) = world s"
  by (simp_all add: log_write_def)









section \<open>Deduplication\<close>




lemma set_for_in: "set (for_in obj) = set obj"
  by (auto simp: for_in_def)

lemma foldl_append_rows:
  "foldl (\<lambda>csv iv. csv @ f iv) acc invs = acc @ concat (map f invs)"
  by (induction invs arbitrary: acc) simp_all

lemma csvContent_rows:
  "csvContent customerName customerEmail invs
     = csv_header @ concat (map (csv_row customerName customerEmail) invs)"
  by (simp add: csvContent_def foldl_append_rows)

lemma csvContent2_rows: "csvContent2 invs = csv_header2 @ concat (map csv_row2 invs)"
  by (simp add: csvContent2_def foldl_append_rows)








section \<open>Groups are never empty\<close>



section \<open>CSV rendering\<close>

lemma csv_lines_line: "LF \<notin> set l \<Longrightarrow> csv_lines (l @ LF # rest) = l # csv_lines rest"
  by (induction l) auto

lemma csv_lines_rows:
  "list_all (\<lambda>iv. LF \<notin> set (f iv)) invs \<Longrightarrow>
   csv_lines (concat (map (\<lambda>iv. f iv @ [LF]) invs)) = map f invs"
  by (induction invs) (simp_all add: csv_lines_line)

lemma digits_rev_digits: "set (digits_rev k) \<subseteq> set digit_chars"
proof (induction k rule: digits_rev.induct)
  case (1 k)
  have "k mod 10 < length digit_chars" by (simp add: digit_chars_def)
  then have "digit_chars ! (k mod 10) \<in> set digit_chars" by (rule nth_mem)
  with 1 show ?case
    by (subst digits_rev.simps) auto
qed

lemma LF_not_digit: "LF \<notin> set digit_chars"
  by (simp add: LF_def digit_chars_def)

lemma LF_not_in_number: "LF \<notin> set (string_of_number x)"
proof -
  have "LF \<notin> set (string_of_nat k)" for k
    using digits_rev_digits [of k] LF_not_digit by (auto simp: string_of_nat_def)
  then show ?thesis
    by (cases x) (auto simp: string_of_number_def string_of_int_def LF_def)
qed

lemma csv_row_split:
  "csv_row n e iv = butlast (csv_row n e iv) @ [LF]"
  by (simp add: csv_row_def butlast_append)

lemma csv_row2_split: "csv_row2 iv = butlast (csv_row2 iv) @ [LF]"
  by (simp add: csv_row2_def butlast_append)

lemma csv_row_no_LF:
  "LF \<notin> set n \<Longrightarrow> LF \<notin> set e \<Longrightarrow> LF \<notin> set (invoiceNumber iv) \<Longrightarrow> LF \<notin> set (amount iv)
   \<Longrightarrow> LF \<notin> set (butlast (csv_row n e iv))"
  using LF_not_in_number [of "daysOverdue iv"]
  by (auto simp: csv_row_def butlast_append LF_def DQ_def)

lemma csv_row2_no_LF:
  "LF \<notin> set (invoiceNumber iv) \<Longrightarrow> LF \<notin> set (amount iv)
   \<Longrightarrow> LF \<notin> set (butlast (csv_row2 iv))"
  using LF_not_in_number [of "daysOverdue iv"]
  by (auto simp: csv_row2_def butlast_append LF_def)

lemma csv_lines_content:
  assumes "hdr = h @ [LF]" and "LF \<notin> set h"
    and "list_all (\<lambda>iv. LF \<notin> set (f iv)) invs"
    and "\<And>iv. row iv = f iv @ [LF]"
  shows "csv_lines (hdr @ concat (map row invs)) = h # map f invs"
proof -
  have "row = (\<lambda>iv. f iv @ [LF])"
    by (rule ext) (rule assms(4))
  then have "hdr @ concat (map row invs) = h @ LF # concat (map (\<lambda>iv. f iv @ [LF]) invs)"
    by (simp only: assms(1) append_assoc append.simps)
  then have "csv_lines (hdr @ concat (map row invs))
      = csv_lines (h @ LF # concat (map (\<lambda>iv. f iv @ [LF]) invs))"
    by (rule arg_cong)
  also have "\<dots> = h # csv_lines (concat (map (\<lambda>iv. f iv @ [LF]) invs))"
    using assms(2) by (rule csv_lines_line)
  also have "csv_lines (concat (map (\<lambda>iv. f iv @ [LF]) invs)) = map f invs"
    using assms(3) by (rule csv_lines_rows)
  finally show ?thesis .
qed

lemma csv_lines_csvContent:
  assumes "LF \<notin> set n" and "LF \<notin> set e"
    and "list_all (\<lambda>iv. LF \<notin> set (invoiceNumber iv) \<and> LF \<notin> set (amount iv)) invs"
  shows "csv_lines (csvContent n e invs)
           = butlast csv_header # map (\<lambda>iv. butlast (csv_row n e iv)) invs"
  unfolding csvContent_rows
proof (rule csv_lines_content)
  show "csv_header = butlast csv_header @ [LF]" by (simp add: csv_header_def)
  show "LF \<notin> set (butlast csv_header)" by (simp add: csv_header_def LF_def)
  show "list_all (\<lambda>iv. LF \<notin> set (butlast (csv_row n e iv))) invs"
    using assms by (simp add: list_all_iff csv_row_no_LF)
  show "csv_row n e iv = butlast (csv_row n e iv) @ [LF]" for iv
    by (rule csv_row_split)
qed

lemma csv_lines_csvContent2:
  assumes "list_all (\<lambda>iv. LF \<notin> set (invoiceNumber iv) \<and> LF \<notin> set (amount iv)) invs"
  shows "csv_lines (csvContent2 invs) = butlast csv_header2 # map (\<lambda>iv. butlast (csv_row2 iv)) invs"
  unfolding csvContent2_rows
proof (rule csv_lines_content)
  show "csv_header2 = butlast csv_header2 @ [LF]" by (simp add: csv_header2_def)
  show "LF \<notin> set (butlast csv_header2)" by (simp add: csv_header2_def LF_def)
  show "list_all (\<lambda>iv. LF \<notin> set (butlast (csv_row2 iv))) invs"
    using assms by (simp add: list_all_iff csv_row2_no_LF)
  show "csv_row2 iv = butlast (csv_row2 iv) @ [LF]" for iv
    by (rule csv_row2_split)
qed

lemma searchOverdueInvoices_distinct:
  assumes "searchOverdueInvoices h s = Normal groups s'"
  shows "list_all (\<lambda>p. distinct (map invoiceNumber (snd p))) groups"
proof -
  obtain rows failure w where se: "search_each h invoiceSearch (world s) = ((rows, failure), w)"
    by (metis prod.exhaust)
  let ?v0 = "\<lparr>customerInvoices = [], processedInvoices = [], invoiceCount = 0\<rparr>"
  let ?s0 = "s\<lparr>world := w, calls := calls s @ [SearchRun invoiceSearch]\<rparr>"
  let ?run = "each (searchOverdueInvoices_callback h) rows (?v0, ?s0)"
  have "groups_ok (fst (state_of ?run))"
    by (rule groups_ok_each) (simp add: groups_ok_def)
  moreover from assms se have "groups = customerInvoices (fst (state_of ?run))"
    by (auto simp: searchOverdueInvoices_def searchOverdueInvoices_try_def
        split: completion.splits prod.splits option.splits)
  ultimately show ?thesis
    by (auto simp: groups_ok_def entry_ok_def list_all_iff)
qed

text \<open>
  C7, as amended. The CSV text of either renderer is the constant header followed by
  one row for each invoice summary of the group, in order; when no field holds a line
  feed its lines are the header line and one line per summary. In the primary script
  the number of summaries of a group is the number of distinct invoice numbers in it.
  (The other two scripts keep repeated rows, so there the count of a group is not a
  deduplicated one.)
\<close>

theorem csv_one_row_per_invoice:
  "csvContent customerName customerEmail invs
     = csv_header @ concat (map (csv_row customerName customerEmail) invs)
   \<and> csvContent2 invs = csv_header2 @ concat (map csv_row2 invs)
   \<and> (LF \<notin> set customerName \<and> LF \<notin> set customerEmail
        \<and> list_all (\<lambda>iv. LF \<notin> set (invoiceNumber iv) \<and> LF \<notin> set (amount iv)) invs \<longrightarrow>
        csv_lines (csvContent customerName customerEmail invs)
          = butlast csv_header # map (\<lambda>iv. butlast (csv_row customerName customerEmail iv)) invs)
   \<and> (list_all (\<lambda>iv. LF \<notin> set (invoiceNumber iv) \<and> LF \<notin> set (amount iv)) invs \<longrightarrow>
        csv_lines (csvContent2 invs) = butlast csv_header2 # map (\<lambda>iv. butlast (csv_row2 iv)) invs)
   \<and> (searchOverdueInvoices h s = Normal groups s' \<longrightarrow>
        (\<forall>p\<in>set (for_in groups).
           length (snd p) = length (remdups (map invoiceNumber (snd p)))))"
proof (intro conjI impI ballI)
  show "csvContent customerName customerEmail invs
          = csv_header @ concat (map (csv_row customerName customerEmail) invs)"
    by (rule csvContent_rows)
  show "csvContent2 invs = csv_header2 @ concat (map csv_row2 invs)"
    by (rule csvContent2_rows)
next
  assume "LF \<notin> set customerName \<and> LF \<notin> set customerEmail
        \<and> list_all (\<lambda>iv. LF \<notin> set (invoiceNumber iv) \<and> LF \<notin> set (amount iv)) invs"
  then show "csv_lines (csvContent customerName customerEmail invs)
          = butlast csv_header # map (\<lambda>iv. butlast (csv_row customerName customerEmail iv)) invs"
    by (simp add: csv_lines_csvContent)
next
  assume "list_all (\<lambda>iv. LF \<notin> set (invoiceNumber iv) \<and> LF \<notin> set (amount iv)) invs"
  then show "csv_lines (csvContent2 invs)
          = butlast csv_header2 # map (\<lambda>iv. butlast (csv_row2 iv)) invs"
    by (rule csv_lines_csvContent2)
next
  fix p
  assume "searchOverdueInvoices h s = Normal groups s'" and "p \<in> set (for_in groups)"
  then have "distinct (map invoiceNumber (snd p))"
    using searchOverdueInvoices_distinct [of h s groups s']
    by (simp add: set_for_in list_all_iff)
  then show "length (snd p) = length (remdups (map invoiceNumber (snd p)))"
    by (simp add: distinct_remdups_id)
qed

theorem csv_one_row_per_invoice_witness:
  "LF \<notin> set ''ACME'' \<and> LF \<notin> set ''a@x.com''
   \<and> list_all (\<lambda>iv. LF \<notin> set (invoiceNumber iv) \<and> LF \<notin> set (amount iv))
        [summary_INV1, summary_INV2]
   \<and> csv_lines (csvContent ''ACME'' ''a@x.com'' [summary_INV1, summary_INV2])
     = [''Customer Name,Customer Email,Invoice Document Number,Invoice Amount,Days Overdue'',
        [DQ] @ ''ACME'' @ [DQ] @ '','' @ [DQ] @ ''a@x.com'' @ [DQ] @ '',INV1,100,60'',
        [DQ] @ ''ACME'' @ [DQ] @ '','' @ [DQ] @ ''a@x.com'' @ [DQ] @ '',INV2,250,60'']
   \<and> csv_lines (csvContent2 [summary_INV1, summary_INV2])
     = [''Invoice Number,Amount,Days Overdue'', ''INV1,100,60'', ''INV2,250,60'']
   \<and> searchOverdueInvoices (memory_host [row_INV1, row_INV1] [] []) (start march_1st)
       = Normal [(''1'', [summary_INV1])]
           \<lparr>world = march_1st,
            logs = [(AUDIT, ''Invoices Found'', ''Total unique overdue invoices: 1''),
                    (AUDIT, ''Customer Invoices'', ''Customer ID 1: 1 invoices - INV1'')],
            calls = [SearchRun invoiceSearch]\<rparr>
   \<and> length [summary_INV1] = length (remdups (map invoiceNumber [summary_INV1]))"
  using csv_one_row_per_invoice [of "''ACME''" "''a@x.com''" "[summary_INV1, summary_INV2]"
      "memory_host [row_INV1, row_INV1] [] []" "start march_1st" "[(''1'', [summary_INV1])]"
      "\<lparr>world = march_1st,
            logs = [(AUDIT, ''Invoices Found'', ''Total unique overdue invoices: 1''),
                    (AUDIT, ''Customer Invoices'', ''Customer ID 1: 1 invoices - INV1'')],
            calls = [SearchRun invoiceSearch]\<rparr>"]
  by (simp add: js_defs host_defs primary_defs second_defs)

text \<open>
  The claim as first stated fails on the second script: two equal rows of the search
  give a group of two summaries and a CSV of two data rows for one invoice number.
\<close>

theorem csv_duplicate_rows_counterexample:
  "getOverdueInvoices (memory_host [row_INV1, row_INV1] [] []) (start march_1st)
     = Normal [(''1'', [summary_INV1, summary_INV1])]
         \<lparr>world = march_1st, logs = [], calls = [SearchRun invoiceSearch2]\<rparr>
   \<and> csv_lines (csvContent2 [summary_INV1, summary_INV1])
     = [''Invoice Number,Amount,Days Overdue'', ''INV1,100,60'', ''INV1,100,60'']
   \<and> length (remdups (map invoiceNumber [summary_INV1, summary_INV1])) = 1"
  by (simp add: js_defs host_defs second_defs)

section \<open>Customers without an email address\<close>

text \<open>
  C4. When the customer record is read and its email field is empty, the processing of
  that customer returns normally having made one host call, the read itself: no file is
  created and no \<open>email.send\<close> call is added. The primary and the third script log
  the error \<open>Missing Email\<close>, the second logs nothing, and in each the loop goes on
  with the remaining customers from the state so reached.
\<close>

theorem no_email_no_dispatch:
  "(lookupFields_customer h customerId (world s) = Normal cf w \<and> \<not> truthy (email cf) \<longrightarrow>
      sendCustomerEmail h customerId invoices s
        = Normal ()
            (log_write ERROR ''Missing Email''
               (''Customer ''
                @ (if truthy (companyname cf) then companyname cf
                   else if truthy (firstname cf) then firstname cf else ''Customer'')
                @ '' (ID: '' @ customerId @ '') has no email. Skipping.'')
               (s\<lparr>world := w, calls := calls s @ [LookupFields ''customer'' customerId]\<rparr>))
      \<and> sent_emails (calls (state_of (sendCustomerEmail h customerId invoices s)))
          = sent_emails (calls s)
      \<and> notify_loop h ((customerId, invoices) # rest) s
          = notify_loop h rest (state_of (sendCustomerEmail h customerId invoices s)))
   \<and> (record_load_customer h customerId (world s) = Normal cr w \<and> \<not> truthy (email cr) \<longrightarrow>
      notifyCustomers_try h customerId invoices s
        = Normal () (s\<lparr>world := w, calls := calls s @ [RecordLoad ''customer'' customerId]\<rparr>)
      \<and> sent_emails (calls (state_of (notifyCustomers_try h customerId invoices s)))
          = sent_emails (calls s)
      \<and> notifyCustomers_loop h ((customerId, invoices) # rest) s
          = notifyCustomers_loop h rest (state_of (notifyCustomers_try h customerId invoices s))
      \<and> execute3_customer_try h customerId invoices s
        = Normal ()
            (log_write ERROR ''Missing Email''
               (''Customer ''
                @ (if truthy (companyname cr) then companyname cr else firstname cr)
                @ '' (ID: '' @ customerId @ '') has no email. Skipping.'')
               (s\<lparr>world := w, calls := calls s @ [RecordLoad ''customer'' customerId]\<rparr>))
      \<and> sent_emails (calls (state_of (execute3_customer_try h customerId invoices s)))
          = sent_emails (calls s)
      \<and> execute3_loop h ((customerId, invoices) # rest) s
          = execute3_loop h rest (state_of (execute3_customer_try h customerId invoices s)))"
  by (simp add: sendCustomerEmail_def sendCustomerEmail_try_def notifyCustomers_try_def
      execute3_customer_try_def notify_loop_def notifyCustomers_loop_def execute3_loop_def
      invoke_def log_write_fields sent_emails_append Let_def)

theorem no_email_no_dispatch_witness:
  "lookupFields_customer (memory_host [] [(''2'', no_email_customer)] []) ''2''
      (world (start march_1st)) = Normal no_email_customer march_1st
   \<and> \<not> truthy (email no_email_customer)
   \<and> record_load_customer (memory_host [] [(''2'', no_email_customer)] []) ''2''
      (world (start march_1st))
     = Normal \<lparr>companyname = ''Bolt'', firstname = [], email = [], salesrep = []\<rparr> march_1st
   \<and> sendCustomerEmail (memory_host [] [(''2'', no_email_customer)] []) ''2'' [summary_INV2]
        (start march_1st)
     = Normal ()
         \<lparr>world = march_1st,
          logs = [(ERROR, ''Missing Email'', ''Customer Bolt (ID: 2) has no email. Skipping.'')],
          calls = [LookupFields ''customer'' ''2'']\<rparr>
   \<and> notifyCustomers_try (memory_host [] [(''2'', no_email_customer)] []) ''2'' [summary_INV2]
        (start march_1st)
     = Normal () \<lparr>world = march_1st, logs = [], calls = [RecordLoad ''customer'' ''2'']\<rparr>
   \<and> execute3_customer_try (memory_host [] [(''2'', no_email_customer)] []) ''2'' [summary_INV2]
        (start march_1st)
     = Normal ()
         \<lparr>world = march_1st,
          logs = [(ERROR, ''Missing Email'', ''Customer Bolt (ID: 2) has no email. Skipping.'')],
          calls = [RecordLoad ''customer'' ''2'']\<rparr>"
  using no_email_no_dispatch [of "memory_host [] [(''2'', no_email_customer)] []" "''2''"
      "start march_1st" no_email_customer march_1st "[summary_INV2]" "[]"
      "\<lparr>companyname = ''Bolt'', firstname = [], email = [], salesrep = []\<rparr>"]
  by (simp add: js_defs host_defs)

section \<open>Failure isolation\<close>













section \<open>Days overdue\<close>



end
